theory Spec2Isabelle
  imports Complex_Main
begin

section \<open>JavaScript strings and values\<close>

text \<open>
  Strings are lists of 8-bit code units; the embedding covers the ASCII fragment of
  JavaScript strings. \<open>toLowerCase\<close> maps \<open>A\<close>..\<open>Z\<close> to \<open>a\<close>..\<open>z\<close> and leaves every other
  code unit alone; white space (\<open>\s\<close>, \<open>trim\<close>) is TAB, LF, VT, FF, CR and SPACE; a word
  character (\<open>\w\<close>) is a letter, a digit or the underscore.
\<close>

definition toLowerChar :: "char \<Rightarrow> char" where
  "toLowerChar c =
     (case map_of (zip ''ABCDEFGHIJKLMNOPQRSTUVWXYZ'' ''abcdefghijklmnopqrstuvwxyz'') c of
        Some l \<Rightarrow> l
      | None \<Rightarrow> c)"

definition toLowerCase :: "string \<Rightarrow> string" where
  "toLowerCase s = map toLowerChar s"

definition startsWith :: "string \<Rightarrow> string \<Rightarrow> bool" where
  "startsWith s p = (take (length p) s = p)"

text \<open>\<open>s.includes(k)\<close> on strings: \<open>k\<close> occurs in \<open>s\<close> as a contiguous substring.\<close>

fun includes_s :: "string \<Rightarrow> string \<Rightarrow> bool" where
  "includes_s [] k = (k = [])"
| "includes_s (c # cs) k = (startsWith (c # cs) k \<or> includes_s cs k)"

definition isWhiteSpace :: "char \<Rightarrow> bool" where
  "isWhiteSpace c = (c \<in> set [CHR 0x09, CHR 0x0A, CHR 0x0B, CHR 0x0C, CHR 0x0D, CHR 0x20])"

definition isLineTerminator :: "char \<Rightarrow> bool" where
  "isLineTerminator c = (c \<in> set [CHR 0x0A, CHR 0x0D])"

definition isWordChar :: "char \<Rightarrow> bool" where
  "isWordChar c =
     (c \<in> set ''abcdefghijklmnopqrstuvwxyzABCDEFGHIJKLMNOPQRSTUVWXYZ0123456789_'')"

definition trim :: "string \<Rightarrow> string" where
  "trim s = rev (dropWhile isWhiteSpace (rev (dropWhile isWhiteSpace s)))"

text \<open>\<open>xs.join(sep)\<close>.\<close>

fun join :: "string \<Rightarrow> string list \<Rightarrow> string" where
  "join sep [] = []"
| "join sep [x] = x"
| "join sep (x # y # ys) = x @ sep @ join sep (y # ys)"

text \<open>\<open>s.split(sep)\<close> for a one-character separator: never empty, \<open>''''.split(',') = ['''']\<close>.\<close>

fun split_s :: "char \<Rightarrow> string \<Rightarrow> string list" where
  "split_s sep [] = [[]]"
| "split_s sep (c # cs) =
     (if c = sep then [] # split_s sep cs
      else (case split_s sep cs of
              p # ps \<Rightarrow> (c # p) # ps
            | [] \<Rightarrow> [[c]]))"

text \<open>\<open>xs[i]\<close>: \<open>undefined\<close> (here \<open>None\<close>) out of range.\<close>

definition index :: "'a list \<Rightarrow> nat \<Rightarrow> 'a option" where
  "index xs i = (if i < length xs then Some (xs ! i) else None)"

text \<open>A number in a template literal: its decimal numeral.\<close>

fun showNat :: "nat \<Rightarrow> string" where
  "showNat n =
     (if n < 10 then [''0123456789'' ! n]
      else showNat (n div 10) @ [''0123456789'' ! (n mod 10)])"

text \<open>\<open>a || b\<close> on strings that may be \<open>undefined\<close>: the empty string is falsy.\<close>

definition orElse :: "string option \<Rightarrow> string \<Rightarrow> string" where
  "orElse a b = (case a of None \<Rightarrow> b | Some s \<Rightarrow> if s = [] then b else s)"

definition truthy :: "string option \<Rightarrow> bool" where
  "truthy a = (case a of None \<Rightarrow> False | Some s \<Rightarrow> s \<noteq> [])"

text \<open>
  A thrown value: an \<open>Error\<close> instance with its message, or any other value
  (\<open>error instanceof Error\<close> is false, and it has no \<open>message\<close>).
\<close>

datatype thrown = Error string | NonError

text \<open>
  The values \<open>JSON.parse\<close> returns. An object is the list of its properties;
  \<open>o.key\<close> is the first entry under that key.
\<close>

datatype json =
    JNull
  | JBool bool
  | JNumber real
  | JString string
  | JArray "json list"
  | JObject "(string \<times> json) list"

fun truthy_j :: "json \<Rightarrow> bool" where
  "truthy_j JNull = False"
| "truthy_j (JBool b) = b"
| "truthy_j (JNumber r) = (r \<noteq> 0)"
| "truthy_j (JString s) = (s \<noteq> [])"
| "truthy_j (JArray xs) = True"
| "truthy_j (JObject kvs) = True"

text \<open>\<open>v.key\<close> on a parsed value: only an object has own properties from its text.\<close>

fun property :: "json \<Rightarrow> string \<Rightarrow> json option" where
  "property (JObject kvs) key = map_of kvs key"
| "property v key = None"


section \<open>Data model\<close>

text \<open>
  Modelled from the spec: the declarations of \<open>MessageSender\<close>, \<open>UrlContextMetadataItem\<close>,
  \<open>ChatMessage\<close> and \<open>URLGroup\<close> (\<open>types.ts\<close>) are not among the sources; the records
  follow section 3 of the specification and the fields the code reads and writes. An
  optional field is an \<open>option\<close>. Field names carry a suffix where two records share
  a name with each other or with a parameter of the code (\<open>id_g\<close>, \<open>name_g\<close>,
  \<open>urls_g\<close>, \<open>files_g\<close> of a group; \<open>id_m\<close>, \<open>text_m\<close>, \<open>isLoading_m\<close> of a
  message; \<open>name_f\<close>, \<open>type_f\<close>, \<open>size_f\<close> of a file).
\<close>

datatype MessageSender = USER | MODEL | SYSTEM

record UrlContextMetadataItem =
  retrievedUrl :: string
  urlRetrievalStatus :: string

record ChatMessage =
  id_m :: string
  text_m :: string
  sender :: MessageSender
  timestamp :: nat
  isLoading_m :: "bool option"
  isSummarizing :: "bool option"
  urlContext :: "UrlContextMetadataItem list option"
  summary :: "string option"

text \<open>The browser's \<open>File\<close>: its name, MIME type and size; its body is read through
  the \<open>FileReader\<close> of the environment.\<close>

record File =
  name_f :: string
  type_f :: string
  size_f :: nat

record URLGroup =
  id_g :: string
  name_g :: string
  urls_g :: "string list"
  files_g :: "File list"

subsection \<open>The generative service's request and response\<close>

text \<open>
  The types of the service's client library that the code builds and reads:
  a content part is a text or inline data (\<open>data\<close> is \<open>None\<close> where the code stores
  \<open>undefined\<close>); the only tool is the URL context tool.
\<close>

datatype Part =
    Text string
  | InlineData (mimeType: string) (data: "string option")

datatype Tool = UrlContext

datatype HarmCategory =
    HARM_CATEGORY_HARASSMENT
  | HARM_CATEGORY_HATE_SPEECH
  | HARM_CATEGORY_SEXUALLY_EXPLICIT
  | HARM_CATEGORY_DANGEROUS_CONTENT

datatype HarmBlockThreshold = BLOCK_MEDIUM_AND_ABOVE

record SafetySetting =
  category :: HarmCategory
  threshold :: HarmBlockThreshold

record Content =
  role :: string
  parts :: "Part list"

record GenerateContentParameters =
  model :: string
  contents :: "Content list"
  tools :: "Tool list option"
  safetySettings_p :: "SafetySetting list"
  responseMimeType :: "string option"

text \<open>A candidate's \<open>urlContextMetadata\<close> may be absent, and so may its
  \<open>urlMetadata\<close>: two options.\<close>

record Candidate =
  finishReason :: "string option"
  urlContextMetadata_c :: "UrlContextMetadataItem list option option"

record GenerateContentResponse =
  text_r :: "string option"
  candidates :: "Candidate list option"

record GeminiResponse =
  text_gr :: "string option"
  urlContextMetadata :: "UrlContextMetadataItem list option"

subsection \<open>The environment\<close>

text \<open>
  What the code reads from outside: the credential \<open>process.env.API_KEY\<close>, the
  runtime's \<open>navigator.onLine\<close>, the clock (\<open>clock env k\<close> is the \<open>k\<close>-th reading, by
  \<open>Date.now()\<close> or \<open>new Date()\<close>, that a handler makes), the service's
  \<open>generateContent\<close> (\<open>Inl\<close> what it throws), \<open>JSON.parse\<close> (\<open>None\<close> where it throws
  a syntax error) and the \<open>FileReader\<close> (\<open>None\<close> where it signals \<open>onerror\<close>).
\<close>

record Env =
  API_KEY :: "string option"
  onLine :: bool
  clock :: "nat \<Rightarrow> nat"
  generateContent :: "GenerateContentParameters \<Rightarrow> thrown + GenerateContentResponse"
  JSON_parse :: "string \<Rightarrow> json option"
  readAsDataURL :: "File \<Rightarrow> string option"
  readAsText :: "File \<Rightarrow> string option"

text \<open>
  What a handler does to the outside: \<open>Generate\<close> and \<open>Suggest\<close> are calls of the
  gateway's \<open>generateContentWithContext\<close> and \<open>getInitialSuggestions\<close>, \<open>Service\<close> is
  a request sent to the service.
\<close>

datatype call =
    Generate string "string list" "Part list"
  | Suggest "string list"
  | Service GenerateContentParameters

section \<open>The gateway: \<open>geminiService.ts\<close>\<close>

definition MODEL_NAME :: string where
  "MODEL_NAME = ''gemini-2.5-flash''"

definition getAiInstance :: "Env \<Rightarrow> thrown + unit" where
  "getAiInstance env =
     (if \<not> truthy (API_KEY env)
      then Inl (Error ''Gemini API Key not configured. Please check your environment settings.'')
      else Inr ())"

definition safetySettings :: "SafetySetting list" where
  "safetySettings =
     [\<lparr>category = HARM_CATEGORY_HARASSMENT, threshold = BLOCK_MEDIUM_AND_ABOVE\<rparr>,
      \<lparr>category = HARM_CATEGORY_HATE_SPEECH, threshold = BLOCK_MEDIUM_AND_ABOVE\<rparr>,
      \<lparr>category = HARM_CATEGORY_SEXUALLY_EXPLICIT, threshold = BLOCK_MEDIUM_AND_ABOVE\<rparr>,
      \<lparr>category = HARM_CATEGORY_DANGEROUS_CONTENT, threshold = BLOCK_MEDIUM_AND_ABOVE\<rparr>]"

text \<open>
  \<open>msg.replace(/\[.*?\]\s*/, '')\<close>: the first match is removed. It starts at the
  leftmost \<open>[\<close> that has a \<open>]\<close> after it with no line terminator in between, runs to
  the first such \<open>]\<close> and takes the white space that follows. \<open>closeBracket\<close> reads the
  text after a \<open>[\<close> and returns what follows the \<open>]\<close>.
\<close>

fun closeBracket :: "string \<Rightarrow> string option" where
  "closeBracket [] = None"
| "closeBracket (c # cs) =
     (if c = CHR '']'' then Some cs
      else if isLineTerminator c then None
      else closeBracket cs)"

fun removeBracketed :: "string \<Rightarrow> string" where
  "removeBracketed [] = []"
| "removeBracketed (c # cs) =
     (if c = CHR ''[''
      then (case closeBracket cs of
              Some rest \<Rightarrow> dropWhile isWhiteSpace rest
            | None \<Rightarrow> c # removeBracketed cs)
      else c # removeBracketed cs)"

text \<open>\<open>s.replace(/^GoogleGenAIError:\s*/, '')\<close>.\<close>

definition removeErrorPrefix :: "string \<Rightarrow> string" where
  "removeErrorPrefix s =
     (if startsWith s ''GoogleGenAIError:''
      then dropWhile isWhiteSpace (drop (length ''GoogleGenAIError:'') s)
      else s)"

definition formatGeminiError :: "thrown \<Rightarrow> string" where
  "formatGeminiError error =
     (case error of
        Error msg \<Rightarrow>
          (let lowerMsg = toLowerCase msg in
           if includes_s lowerMsg ''403'' \<or> includes_s lowerMsg ''api key''
           then ''Authentication failed. Please verify your API Key.''
           else if includes_s lowerMsg ''429'' \<or> includes_s lowerMsg ''quota''
           then ''Usage limit exceeded. Please try again later.''
           else if includes_s lowerMsg ''503'' \<or> includes_s lowerMsg ''service unavailable''
                   \<or> includes_s lowerMsg ''overloaded''
           then ''The AI service is temporarily unavailable. Please try again in a few moments.''
           else if includes_s lowerMsg ''network'' \<or> includes_s lowerMsg ''fetch failed''
                   \<or> includes_s lowerMsg ''failed to fetch''
           then ''Network connection failed. Please check your internet connection.''
           else if includes_s lowerMsg ''safety'' \<or> includes_s lowerMsg ''blocked''
           then ''The content was blocked due to safety policies. Please try a different prompt.''
           else if includes_s lowerMsg ''candidate''
           then ''The model could not generate a valid response for this request.''
           else removeErrorPrefix (removeBracketed msg))
      | NonError \<Rightarrow> ''An unexpected error occurred while communicating with the AI service.'')"

text \<open>
  The request of \<open>generateContentWithContext\<close>: the argument it builds for the
  service's \<open>generateContent\<close> from the prompt, the URLs and the file parts.
\<close>

definition contextRequest :: "string \<Rightarrow> string list \<Rightarrow> Part list \<Rightarrow> GenerateContentParameters" where
  "contextRequest prompt urls fileParts =
     (let fullPrompt =
            (if length urls > 0
             then prompt @ ''\<newline>\<newline>Relevant URLs for context:\<newline>'' @ join ''\<newline>'' urls
             else prompt);
          tools = (if length urls > 0 then Some [UrlContext] else None);
          parts = (if length fileParts > 0 then fileParts else []) @ [Text fullPrompt];
          contents = [\<lparr>role = ''user'', parts = parts\<rparr>]
      in \<lparr>model = MODEL_NAME, contents = contents, tools = tools,
          safetySettings_p = safetySettings, responseMimeType = None\<rparr>)"

text \<open>A string that may be \<open>undefined\<close>, in a template literal.\<close>

definition interpolate :: "string option \<Rightarrow> string" where
  "interpolate v = (case v of Some r \<Rightarrow> r | None \<Rightarrow> ''undefined'')"

text \<open>
  \<open>generateContentWithContext\<close>, with the requests it sends. The credential check is
  before the \<open>try\<close>: its error is thrown as it is. Everything thrown inside the \<open>try\<close>,
  the function's own error for an empty text too, is caught and thrown again as an
  \<open>Error\<close> whose message is \<open>formatGeminiError\<close> of it.
\<close>

definition generateContentWithContext ::
  "Env \<Rightarrow> string \<Rightarrow> string list \<Rightarrow> Part list
     \<Rightarrow> (thrown + GeminiResponse) \<times> GenerateContentParameters list" where
  "generateContentWithContext env prompt urls fileParts =
     (case getAiInstance env of
        Inl e \<Rightarrow> (Inl e, [])
      | Inr currentAi \<Rightarrow>
          (let request = contextRequest prompt urls fileParts
           in (case generateContent env request of
                 Inl error \<Rightarrow> Inl (Error (formatGeminiError error))
               | Inr response \<Rightarrow>
                   (let text = orElse (text_r response) [];
                        candidate = (case candidates response of
                                       Some (c # cs) \<Rightarrow> Some c
                                     | _ \<Rightarrow> None)
                    in (case candidate of
                          Some c \<Rightarrow>
                            if text = [] \<and> finishReason c \<noteq> Some ''STOP''
                            then Inl (Error (formatGeminiError (Error
                                   (''Response stopped due to: '' @ interpolate (finishReason c)))))
                            else Inr \<lparr>text_gr = Some text,
                                      urlContextMetadata =
                                        (case urlContextMetadata_c c of
                                           Some (Some m) \<Rightarrow> Some m
                                         | _ \<Rightarrow> None)\<rparr>
                        | None \<Rightarrow> Inr \<lparr>text_gr = Some text, urlContextMetadata = None\<rparr>)),
               [request])))"

text \<open>
  \<open>getInitialSuggestions\<close>: the canned payload for no URLs is
  \<open>JSON.stringify({ suggestions: [...] })\<close>; the request carries no tool and asks for
  JSON.
\<close>

definition getInitialSuggestions ::
  "Env \<Rightarrow> string list \<Rightarrow> (thrown + GeminiResponse) \<times> GenerateContentParameters list" where
  "getInitialSuggestions env urls =
     (if length urls = 0
      then (Inr \<lparr>text_gr = Some (''{'' @ [CHR 0x22] @ ''suggestions'' @ [CHR 0x22] @ '':[''
                     @ [CHR 0x22] @ ''Add some URLs or Files to get topic suggestions.''
                     @ [CHR 0x22] @ '']}''),
                 urlContextMetadata = None\<rparr>, [])
      else (case getAiInstance env of
              Inl e \<Rightarrow> (Inl e, [])
            | Inr currentAi \<Rightarrow>
                (let urlList = join ''\<newline>'' urls;
                     promptText =
                       ''Based on the content of the following documentation URLs, provide 3-4 concise and actionable questions a developer might ask to explore these documents. Return ONLY a JSON object with a key ''
                       @ [CHR 0x22] @ ''suggestions'' @ [CHR 0x22] @ ''.\<newline>\<newline>Relevant URLs:\<newline>'' @ urlList;
                     contents = [\<lparr>role = ''user'', parts = [Text promptText]\<rparr>];
                     request = \<lparr>model = MODEL_NAME, contents = contents, tools = None,
                                safetySettings_p = safetySettings,
                                responseMimeType = Some ''application/json''\<rparr>
                 in (case generateContent env request of
                       Inl error \<Rightarrow> Inl (Error (formatGeminiError error))
                     | Inr response \<Rightarrow>
                         Inr \<lparr>text_gr = text_r response, urlContextMetadata = None\<rparr>,
                     [request]))))"


section \<open>The application: \<open>App\<close>\<close>

definition GEMINI_DOCS_URLS :: "string list" where
  "GEMINI_DOCS_URLS =
     [''https://ai.google.dev/gemini-api/docs'',
      ''https://ai.google.dev/gemini-api/docs/quickstart'',
      ''https://ai.google.dev/gemini-api/docs/api-key'',
      ''https://ai.google.dev/gemini-api/docs/libraries'',
      ''https://ai.google.dev/gemini-api/docs/models'',
      ''https://ai.google.dev/gemini-api/docs/pricing'',
      ''https://ai.google.dev/gemini-api/docs/rate-limits'',
      ''https://ai.google.dev/gemini-api/docs/billing'',
      ''https://ai.google.dev/gemini-api/docs/changelog'']"

definition MODEL_CAPABILITIES_URLS :: "string list" where
  "MODEL_CAPABILITIES_URLS =
     [''https://ai.google.dev/gemini-api/docs/text-generation'',
      ''https://ai.google.dev/gemini-api/docs/image-generation'',
      ''https://ai.google.dev/gemini-api/docs/video'',
      ''https://ai.google.dev/gemini-api/docs/speech-generation'',
      ''https://ai.google.dev/gemini-api/docs/music-generation'',
      ''https://ai.google.dev/gemini-api/docs/long-context'',
      ''https://ai.google.dev/gemini-api/docs/structured-output'',
      ''https://ai.google.dev/gemini-api/docs/thinking'',
      ''https://ai.google.dev/gemini-api/docs/function-calling'',
      ''https://ai.google.dev/gemini-api/docs/document-processing'',
      ''https://ai.google.dev/gemini-api/docs/image-understanding'',
      ''https://ai.google.dev/gemini-api/docs/video-understanding'',
      ''https://ai.google.dev/gemini-api/docs/audio'',
      ''https://ai.google.dev/gemini-api/docs/code-execution'',
      ''https://ai.google.dev/gemini-api/docs/grounding'']"

definition INITIAL_URL_GROUPS :: "URLGroup list" where
  "INITIAL_URL_GROUPS =
     [\<lparr>id_g = ''gemini-overview'', name_g = ''Gemini Docs Overview'',
       urls_g = GEMINI_DOCS_URLS, files_g = []\<rparr>,
      \<lparr>id_g = ''model-capabilities'', name_g = ''Model Capabilities'',
       urls_g = MODEL_CAPABILITIES_URLS, files_g = []\<rparr>]"

definition MAX_URLS :: nat where
  "MAX_URLS = 20"

definition MAX_FILES :: nat where
  "MAX_FILES = 50"

subsection \<open>The file encoder\<close>

text \<open>A reader's \<open>onerror\<close> rejects with the event, which is no \<open>Error\<close>.\<close>

definition readFileAsBase64 :: "Env \<Rightarrow> File \<Rightarrow> thrown + string option" where
  "readFileAsBase64 env file =
     (case readAsDataURL env file of
        None \<Rightarrow> Inl NonError
      | Some result \<Rightarrow> Inr (index (split_s CHR '','' result) 1))"

definition readFileAsText :: "Env \<Rightarrow> File \<Rightarrow> thrown + string" where
  "readFileAsText env file =
     (case readAsText env file of
        None \<Rightarrow> Inl NonError
      | Some result \<Rightarrow> Inr result)"

definition fileToPart :: "Env \<Rightarrow> File \<Rightarrow> thrown + Part" where
  "fileToPart env file =
     (let isImage = startsWith (type_f file) ''image/'';
          isPdf = (type_f file = ''application/pdf'');
          isAudio = startsWith (type_f file) ''audio/'';
          isVideo = startsWith (type_f file) ''video/''
      in if isImage \<or> isPdf \<or> isAudio \<or> isVideo
         then (case readFileAsBase64 env file of
                 Inl e \<Rightarrow> Inl e
               | Inr base64Data \<Rightarrow>
                   Inr (InlineData (orElse (Some (type_f file)) ''application/octet-stream'')
                          base64Data))
         else (case readFileAsText env file of
                 Inl e \<Rightarrow> Inl e
               | Inr text \<Rightarrow>
                   Inr (Text (''File: '' @ name_f file @ ''\<newline>Content:\<newline>'' @ text
                              @ ''\<newline>---\<newline>''))))"

text \<open>\<open>Promise.all(files.map(fileToPart))\<close>: the parts in the files' order, or what
  a failed read threw.\<close>

fun allParts :: "Env \<Rightarrow> File list \<Rightarrow> thrown + Part list" where
  "allParts env [] = Inr []"
| "allParts env (f # fs) =
     (case fileToPart env f of
        Inl e \<Rightarrow> Inl e
      | Inr p \<Rightarrow> (case allParts env fs of
                    Inl e \<Rightarrow> Inl e
                  | Inr ps \<Rightarrow> Inr (p # ps)))"

subsection \<open>The state of the component\<close>

text \<open>
  The state variables of \<open>App\<close>. \<open>urlGroupsRef\<close> is the identity of the array that
  \<open>urlGroups\<close> holds: React compares a state and an effect's dependencies with
  \<open>Object.is\<close>, and every updater the code passes to \<open>setUrlGroups\<close> is
  \<open>prevGroups.map(...)\<close>, which returns a new array whatever it maps.
\<close>

record App =
  urlGroups :: "URLGroup list"
  urlGroupsRef :: nat
  activeUrlGroupId :: string
  chatMessages :: "ChatMessage list"
  isLoading :: bool
  isFetchingSuggestions :: bool
  initialQuerySuggestions :: "string list"

definition activeGroup :: "App \<Rightarrow> URLGroup option" where
  "activeGroup s = find (\<lambda>group. id_g group = activeUrlGroupId s) (urlGroups s)"

definition currentUrlsForChat :: "App \<Rightarrow> string list" where
  "currentUrlsForChat s = (case activeGroup s of Some g \<Rightarrow> urls_g g | None \<Rightarrow> [])"

definition currentFilesForChat :: "App \<Rightarrow> File list" where
  "currentFilesForChat s = (case activeGroup s of Some g \<Rightarrow> files_g g | None \<Rightarrow> [])"

definition setUrlGroups :: "(URLGroup list \<Rightarrow> URLGroup list) \<Rightarrow> App \<Rightarrow> App" where
  "setUrlGroups updater s =
     s\<lparr>urlGroups := updater (urlGroups s), urlGroupsRef := Suc (urlGroupsRef s)\<rparr>"

text \<open>The effect with the dependencies \<open>[activeUrlGroupId, urlGroups]\<close>.\<close>

definition welcomeEffect :: "Env \<Rightarrow> App \<Rightarrow> App" where
  "welcomeEffect env s =
     (let apiKey = API_KEY env;
          currentActiveGroup = find (\<lambda>group. id_g group = activeUrlGroupId s) (urlGroups s);
          welcomeMessageText =
            (if \<not> truthy apiKey
             then ''Error: Gemini API Key (process.env.API_KEY) is not configured. Please set this environment variable to use the application.''
             else ''Welcome! You''
                  @ [CHR 0x27] @ ''re currently browsing '' @ [CHR 0x22]
                  @ orElse (map_option name_g currentActiveGroup) ''Unknown''
                  @ [CHR 0x22]
                  @ ''. Add URLs or upload files/folders to ask questions about them.'')
      in s\<lparr>chatMessages :=
             [\<lparr>id_m = ''system-welcome-'' @ activeUrlGroupId s @ ''-'' @ showNat (clock env 0),
               text_m = welcomeMessageText,
               sender = SYSTEM,
               timestamp = clock env 1,
               isLoading_m = None, isSummarizing = None, urlContext = None,
               summary = None\<rparr>]\<rparr>)"

subsection \<open>The knowledge base store\<close>

definition handleAddUrl :: "string \<Rightarrow> App \<Rightarrow> App" where
  "handleAddUrl url s =
     setUrlGroups (map (\<lambda>group.
        if id_g group = activeUrlGroupId s
        then (if length (urls_g group) < MAX_URLS \<and> url \<notin> set (urls_g group)
              then group\<lparr>urls_g := urls_g group @ [url]\<rparr>
              else group)
        else group)) s"

definition handleRemoveUrl :: "string \<Rightarrow> App \<Rightarrow> App" where
  "handleRemoveUrl urlToRemove s =
     setUrlGroups (map (\<lambda>group.
        if id_g group = activeUrlGroupId s
        then group\<lparr>urls_g := filter (\<lambda>url. url \<noteq> urlToRemove) (urls_g group)\<rparr>
        else group)) s"

definition handleAddFiles :: "File list \<Rightarrow> App \<Rightarrow> App" where
  "handleAddFiles newFiles s =
     setUrlGroups (map (\<lambda>group.
        if id_g group = activeUrlGroupId s
        then (let combinedFiles = files_g group @ newFiles
              in if length combinedFiles > MAX_FILES
                 then group\<lparr>files_g := take MAX_FILES combinedFiles\<rparr>
                 else group\<lparr>files_g := combinedFiles\<rparr>)
        else group)) s"

definition handleRemoveFile :: "string \<Rightarrow> App \<Rightarrow> App" where
  "handleRemoveFile fileName s =
     setUrlGroups (map (\<lambda>group.
        if id_g group = activeUrlGroupId s
        then group\<lparr>files_g := filter (\<lambda>f. name_f f \<noteq> fileName) (files_g group)\<rparr>
        else group)) s"

definition setActiveUrlGroupId :: "string \<Rightarrow> App \<Rightarrow> App" where
  "setActiveUrlGroupId gid s = s\<lparr>activeUrlGroupId := gid\<rparr>"



subsection \<open>Suggestions\<close>

text \<open>
  The match of \<open>/^```(\w*)?\s*\n?(.*?)\n?\s*```$/s\<close> on a string: its groups 1 and 2.
  The string has to open and to close with a fence of its own. The greedy \<open>(\w*)?\<close>
  and \<open>\s*\<close> take the word characters after the opening fence and the white space
  after them (a back quote is neither, so they stop before the closing fence, and
  \<open>\n?\<close> finds nothing left to take); the lazy group 2 is the shortest text after
  which only white space stands before the closing fence: the rest without its
  trailing white space.
\<close>

definition fenceMatch :: "string \<Rightarrow> (string \<times> string) option" where
  "fenceMatch s =
     (if 6 \<le> length s \<and> startsWith s ''```'' \<and> startsWith (rev s) ''```''
      then (let inner = take (length s - 6) (drop 3 s);
                lang = takeWhile isWordChar inner;
                rest = dropWhile isWhiteSpace (dropWhile isWordChar inner)
            in Some (lang, rev (dropWhile isWhiteSpace (rev rest))))
      else None)"

text \<open>\<open>xs.filter(s => typeof s === 'string')\<close>.\<close>

fun strings :: "json list \<Rightarrow> string list" where
  "strings [] = []"
| "strings (JString s # vs) = s # strings vs"
| "strings (v # vs) = strings vs"

text \<open>
  The parser of \<open>fetchAndSetInitialSuggestions\<close>: from \<open>response.text\<close> to the list
  handed to \<open>setInitialQuerySuggestions\<close>. \<open>jsonStr\<close> is the text handed to
  \<open>JSON.parse\<close>: the trimmed text, or the trimmed group 2 of the fence match when it
  is not empty. The inner \<open>try\<close> catches what \<open>JSON.parse\<close> throws and leaves
  \<open>suggestionsArray\<close> empty.
\<close>

definition jsonStr :: "string \<Rightarrow> string" where
  "jsonStr t =
     (let trimmed = trim t
      in (case fenceMatch trimmed of
            Some (lang, body) \<Rightarrow> if body \<noteq> [] then trim body else trimmed
          | None \<Rightarrow> trimmed))"

definition parseSuggestions :: "Env \<Rightarrow> string option \<Rightarrow> string list" where
  "parseSuggestions env text =
     (let suggestionsArray =
            (case text of
               None \<Rightarrow> []
             | Some t \<Rightarrow>
                 if t = [] then []
                 else (case JSON_parse env (jsonStr t) of
                         None \<Rightarrow> []
                       | Some parsed \<Rightarrow>
                           if truthy_j parsed
                           then (case property parsed ''suggestions'' of
                                   Some (JArray xs) \<Rightarrow> strings xs
                                 | _ \<Rightarrow> [])
                           else []))
      in take 4 suggestionsArray)"

definition fetchAndSetInitialSuggestions :: "Env \<Rightarrow> string list \<Rightarrow> App \<Rightarrow> App \<times> call list" where
  "fetchAndSetInitialSuggestions env currentUrls s =
     (if \<not> truthy (API_KEY env) then (s, [])
      else if length currentUrls = 0 then (s\<lparr>initialQuerySuggestions := []\<rparr>, [])
      else (let s1 = s\<lparr>isFetchingSuggestions := True, initialQuerySuggestions := []\<rparr>;
                outcome = getInitialSuggestions env currentUrls
            in ((case fst outcome of
                   Inr response \<Rightarrow>
                     s1\<lparr>initialQuerySuggestions := parseSuggestions env (text_gr response),
                        isFetchingSuggestions := False\<rparr>
                 | Inl e \<Rightarrow> s1\<lparr>isFetchingSuggestions := False\<rparr>),
                Suggest currentUrls # map Service (snd outcome))))"

subsection \<open>Submitting a query\<close>

text \<open>
  \<open>handleSendMessage\<close>, run from the submission to the end of its \<open>finally\<close> with no
  other event in between, and the calls it makes. \<open>e.message\<close> of a value that is no
  \<open>Error\<close> is \<open>undefined\<close>.
\<close>

definition message :: "thrown \<Rightarrow> string option" where
  "message e = (case e of Error m \<Rightarrow> Some m | NonError \<Rightarrow> None)"

definition handleSendMessage :: "Env \<Rightarrow> string \<Rightarrow> App \<Rightarrow> App \<times> call list" where
  "handleSendMessage env query s =
     (if trim query = [] \<or> isLoading s \<or> isFetchingSuggestions s then (s, [])
      else if \<not> onLine env
      then (s\<lparr>chatMessages := chatMessages s @
               [\<lparr>id_m = ''sys-offline-'' @ showNat (clock env 0),
                 text_m = ''Error: You appear to be offline. Please check your internet connection.'',
                 sender = SYSTEM,
                 timestamp = clock env 1,
                 isLoading_m = None, isSummarizing = None, urlContext = None,
                 summary = None\<rparr>]\<rparr>, [])
      else if \<not> truthy (API_KEY env)
      then (s\<lparr>chatMessages := chatMessages s @
               [\<lparr>id_m = ''error-apikey-'' @ showNat (clock env 0),
                 text_m = ''Error: API Key is not configured.'',
                 sender = SYSTEM,
                 timestamp = clock env 1,
                 isLoading_m = None, isSummarizing = None, urlContext = None,
                 summary = None\<rparr>]\<rparr>, [])
      else (let userMessage =
                  \<lparr>id_m = ''user-'' @ showNat (clock env 0),
                   text_m = query,
                   sender = USER,
                   timestamp = clock env 1,
                   isLoading_m = None, isSummarizing = None, urlContext = None,
                   summary = None\<rparr>;
                modelPlaceholderMessage =
                  \<lparr>id_m = ''model-response-'' @ showNat (clock env 2),
                   text_m = ''Thinking...'',
                   sender = MODEL,
                   timestamp = clock env 3,
                   isLoading_m = Some True, isSummarizing = None, urlContext = None,
                   summary = None\<rparr>;
                s1 = s\<lparr>isLoading := True, initialQuerySuggestions := [],
                       chatMessages := chatMessages s @ [userMessage, modelPlaceholderMessage]\<rparr>;
                outcome =
                  (case (if length (currentFilesForChat s) > 0
                         then allParts env (currentFilesForChat s) else Inr []) of
                     Inl e \<Rightarrow> (Inl e, [])
                   | Inr fileParts \<Rightarrow>
                       (let r = generateContentWithContext env query (currentUrlsForChat s) fileParts
                        in (fst r,
                            Generate query (currentUrlsForChat s) fileParts # map Service (snd r))))
            in (case fst outcome of
                  Inr response \<Rightarrow>
                    s1\<lparr>chatMessages := map (\<lambda>msg.
                          if id_m msg = id_m modelPlaceholderMessage
                          then modelPlaceholderMessage
                                 \<lparr>text_m := orElse (text_gr response) ''I received an empty response.'',
                                  isLoading_m := Some False,
                                  urlContext := urlContextMetadata response\<rparr>
                          else msg) (chatMessages s1),
                       isLoading := False\<rparr>
                | Inl e \<Rightarrow>
                    (let errorMessage = orElse (message e) ''An unexpected error occurred.''
                     in s1\<lparr>chatMessages := map (\<lambda>msg.
                              if id_m msg = id_m modelPlaceholderMessage
                              then modelPlaceholderMessage
                                     \<lparr>text_m := ''Error: '' @ errorMessage,
                                      sender := SYSTEM,
                                      isLoading_m := Some False\<rparr>
                              else msg) (chatMessages s1),
                           isLoading := False\<rparr>),
                snd outcome)))"

subsection \<open>Events and rendering\<close>

text \<open>
  The store's events, as the callbacks \<open>App\<close> hands to \<open>KnowledgeBaseManager\<close>. After
  a handler React renders again when the state changed, and runs the welcome effect
  when one of its dependencies \<open>[activeUrlGroupId, urlGroups]\<close> is another value or
  another object than at the last render. The effect that fetches suggestions does
  not write the transcript or the groups; its body is \<open>fetchAndSetInitialSuggestions\<close>
  above.
\<close>

datatype event =
    AddUrl string
  | RemoveUrl string
  | AddFiles "File list"
  | RemoveFile string
  | SetGroupId string

fun handler :: "event \<Rightarrow> App \<Rightarrow> App" where
  "handler (AddUrl url) s = handleAddUrl url s"
| "handler (RemoveUrl url) s = handleRemoveUrl url s"
| "handler (AddFiles newFiles) s = handleAddFiles newFiles s"
| "handler (RemoveFile fileName) s = handleRemoveFile fileName s"
| "handler (SetGroupId gid) s = setActiveUrlGroupId gid s"

definition commit :: "Env \<Rightarrow> App \<Rightarrow> App \<Rightarrow> App" where
  "commit env before after =
     (if activeUrlGroupId after \<noteq> activeUrlGroupId before
         \<or> urlGroupsRef after \<noteq> urlGroupsRef before
      then welcomeEffect env after
      else after)"

definition dispatch :: "Env \<Rightarrow> event \<Rightarrow> App \<Rightarrow> App" where
  "dispatch env ev s = commit env s (handler ev s)"

fun run :: "Env \<Rightarrow> event list \<Rightarrow> App \<Rightarrow> App" where
  "run env [] s = s"
| "run env (ev # evs) s = run env evs (dispatch env ev s)"

text \<open>The state after the first render: the seed groups, the first of them active,
  and the welcome effect run once.\<close>

definition initialApp :: "Env \<Rightarrow> App" where
  "initialApp env =
     welcomeEffect env
       \<lparr>urlGroups = INITIAL_URL_GROUPS, urlGroupsRef = 0,
        activeUrlGroupId = id_g (INITIAL_URL_GROUPS ! 0),
        chatMessages = [], isLoading = False, isFetchingSuggestions = False,
        initialQuerySuggestions = []\<rparr>"

section \<open>The specification's error table\<close>

text \<open>
  Stated from the specification's words, to compare with \<open>formatGeminiError\<close>: the
  categories, the fixed ordered list of keyword sets, and the classification by the
  first set one of whose keywords occurs in the lower-cased message.
\<close>

datatype category =
    Authentication
  | Quota
  | Unavailable
  | Network
  | SafetyBlock
  | InvalidCandidate
  | Generic

definition keywordSets :: "(string list \<times> category) list" where
  "keywordSets =
     [([''403'', ''api key''], Authentication),
      ([''429'', ''quota''], Quota),
      ([''503'', ''service unavailable'', ''overloaded''], Unavailable),
      ([''network'', ''fetch failed'', ''failed to fetch''], Network),
      ([''safety'', ''blocked''], SafetyBlock),
      ([''candidate''], InvalidCandidate)]"

fun firstMatch :: "(string list \<times> category) list \<Rightarrow> string \<Rightarrow> category" where
  "firstMatch [] lowerMsg = Generic"
| "firstMatch ((keywords, c) # rest) lowerMsg =
     (if list_ex (includes_s lowerMsg) keywords then c else firstMatch rest lowerMsg)"

definition classify :: "thrown \<Rightarrow> category" where
  "classify error =
     (case error of
        Error msg \<Rightarrow> firstMatch keywordSets (toLowerCase msg)
      | NonError \<Rightarrow> Generic)"

fun categoryText :: "category \<Rightarrow> thrown \<Rightarrow> string" where
  "categoryText Authentication e = ''Authentication failed. Please verify your API Key.''"
| "categoryText Quota e = ''Usage limit exceeded. Please try again later.''"
| "categoryText Unavailable e =
     ''The AI service is temporarily unavailable. Please try again in a few moments.''"
| "categoryText Network e =
     ''Network connection failed. Please check your internet connection.''"
| "categoryText SafetyBlock e =
     ''The content was blocked due to safety policies. Please try a different prompt.''"
| "categoryText InvalidCandidate e =
     ''The model could not generate a valid response for this request.''"
| "categoryText Generic (Error msg) = removeErrorPrefix (removeBracketed msg)"
| "categoryText Generic NonError =
     ''An unexpected error occurred while communicating with the AI service.''"


section \<open>The specification's accepted suggestions\<close>

text \<open>
  Stated from the specification's words: a parsed value is accepted only if it has a
  \<open>suggestions\<close> array, and the accepted entries are the array's strings.
\<close>

definition suggestionsOf :: "json \<Rightarrow> string list" where
  "suggestionsOf parsed =
     (case property parsed ''suggestions'' of
        Some (JArray xs) \<Rightarrow> strings xs
      | _ \<Rightarrow> [])"

section \<open>The store's bounds\<close>

text \<open>A group is within its caps: at most \<open>MAX_URLS\<close> URLs and \<open>MAX_FILES\<close> files.\<close>

definition withinCaps :: "URLGroup \<Rightarrow> bool" where
  "withinCaps g = (length (urls_g g) \<le> MAX_URLS \<and> length (files_g g) \<le> MAX_FILES)"

section \<open>Concrete inputs\<close>

text \<open>An environment, states and files on which the theorems below are run.\<close>

definition demoEnv :: Env where
  "demoEnv =
     \<lparr>API_KEY = Some ''key'', onLine = True, clock = (\<lambda>k. k),
      generateContent = (\<lambda>request. Inl NonError),
      JSON_parse = (\<lambda>s. None),
      readAsDataURL = (\<lambda>file. None),
      readAsText = (\<lambda>file. None)\<rparr>"

definition fullGroup :: URLGroup where
  "fullGroup =
     \<lparr>id_g = ''full'', name_g = ''Full'',
      urls_g = map (\<lambda>n. ''https://example.com/'' @ showNat n) [0..<20],
      files_g = map (\<lambda>n. \<lparr>name_f = showNat n, type_f = ''text/plain'', size_f = n\<rparr>) [0..<50]\<rparr>"

definition fullApp :: App where
  "fullApp =
     \<lparr>urlGroups = [fullGroup], urlGroupsRef = 0, activeUrlGroupId = ''full'',
      chatMessages = [], isLoading = False, isFetchingSuggestions = False,
      initialQuerySuggestions = []\<rparr>"

definition fileA :: File where
  "fileA = \<lparr>name_f = ''a.txt'', type_f = ''text/plain'', size_f = 5\<rparr>"

definition fileB :: File where
  "fileB = \<lparr>name_f = ''b.png'', type_f = ''image/png'', size_f = 3\<rparr>"



text \<open>Services: one that stops with a finish reason and no text, one that throws.\<close>

definition stoppedResponse :: "string \<Rightarrow> GenerateContentResponse" where
  "stoppedResponse reason =
     \<lparr>text_r = None,
      candidates = Some [\<lparr>finishReason = Some reason, urlContextMetadata_c = None\<rparr>]\<rparr>"

definition stoppingEnv :: "string \<Rightarrow> Env" where
  "stoppingEnv reason = demoEnv\<lparr>generateContent := (\<lambda>request. Inr (stoppedResponse reason))\<rparr>"

definition throwingEnv :: "thrown \<Rightarrow> Env" where
  "throwingEnv e = demoEnv\<lparr>generateContent := (\<lambda>request. Inl e)\<rparr>"

text \<open>An environment whose readers succeed, one that is offline, and one whose
  \<open>JSON.parse\<close> knows two texts.\<close>

definition readingEnv :: Env where
  "readingEnv =
     demoEnv\<lparr>readAsDataURL := (\<lambda>file. Some ''data:image/png;base64,QUJD''),
             readAsText := (\<lambda>file. Some ''hello'')\<rparr>"

definition offlineEnv :: Env where
  "offlineEnv = demoEnv\<lparr>onLine := False\<rparr>"

definition twoSuggestions :: string where
  \<open>twoSuggestions = ''{"suggestions":["a","b"]}''\<close>

definition sixSuggestions :: string where
  \<open>sixSuggestions = ''{"suggestions":["1","2",3,"4","5","6"]}''\<close>

definition demoParse :: "string \<Rightarrow> json option" where
  "demoParse s =
     (if s = twoSuggestions
      then Some (JObject [(''suggestions'', JArray [JString ''a'', JString ''b''])])
      else if s = sixSuggestions
      then Some (JObject [(''suggestions'',
             JArray [JString ''1'', JString ''2'', JNumber 3, JString ''4'', JString ''5'',
                     JString ''6''])])
      else None)"

definition parsingEnv :: Env where
  "parsingEnv = demoEnv\<lparr>JSON_parse := demoParse\<rparr>"

section \<open>Properties of the store\<close>

lemma urlGroups_setUrlGroups: "urlGroups (setUrlGroups updater s) = updater (urlGroups s)"
  by (simp add: setUrlGroups_def)

lemma activeUrlGroupId_setUrlGroups: "activeUrlGroupId (setUrlGroups updater s) = activeUrlGroupId s"
  by (simp add: setUrlGroups_def)

lemma urlGroups_welcomeEffect: "urlGroups (welcomeEffect env s) = urlGroups s"
  by (simp add: welcomeEffect_def Let_def)

lemma urlGroups_commit: "urlGroups (commit env before after) = urlGroups after"
  by (simp add: commit_def urlGroups_welcomeEffect)

lemma withinCaps_addUrl:
  "withinCaps g \<Longrightarrow> length (urls_g g) < MAX_URLS \<Longrightarrow> withinCaps (g\<lparr>urls_g := urls_g g @ [url]\<rparr>)"
  by (simp add: withinCaps_def)

lemma withinCaps_filter_urls:
  "withinCaps g \<Longrightarrow> withinCaps (g\<lparr>urls_g := filter P (urls_g g)\<rparr>)"
  using le_trans[OF length_filter_le, of "urls_g g" MAX_URLS P]
  by (simp add: withinCaps_def)

lemma withinCaps_filter_files:
  "withinCaps g \<Longrightarrow> withinCaps (g\<lparr>files_g := filter P (files_g g)\<rparr>)"
  using le_trans[OF length_filter_le, of "files_g g" MAX_FILES P]
  by (simp add: withinCaps_def)

lemma withinCaps_take_files:
  "withinCaps g \<Longrightarrow> withinCaps (g\<lparr>files_g := take MAX_FILES fs\<rparr>)"
  by (simp add: withinCaps_def)

lemma list_all_map_preserved:
  assumes "\<And>x. P x \<Longrightarrow> P (f x)" and "list_all P xs"
  shows "list_all P (map f xs)"
  using assms by (induction xs) auto

lemma handler_withinCaps:
  assumes "list_all withinCaps (urlGroups s)"
  shows "list_all withinCaps (urlGroups (handler ev s))"
proof (cases ev)
  case (AddUrl url)
  show ?thesis unfolding AddUrl handler.simps handleAddUrl_def urlGroups_setUrlGroups
    by (rule list_all_map_preserved[OF _ assms]) (simp add: withinCaps_addUrl)
next
  case (RemoveUrl url)
  show ?thesis unfolding RemoveUrl handler.simps handleRemoveUrl_def urlGroups_setUrlGroups
    by (rule list_all_map_preserved[OF _ assms]) (simp add: withinCaps_filter_urls)
next
  case (AddFiles newFiles)
  have "withinCaps g \<Longrightarrow>
          withinCaps (let combinedFiles = files_g g @ newFiles
                      in if length combinedFiles > MAX_FILES
                         then g\<lparr>files_g := take MAX_FILES combinedFiles\<rparr>
                         else g\<lparr>files_g := combinedFiles\<rparr>)" for g
    by (simp add: withinCaps_def Let_def)
  then show ?thesis unfolding AddFiles handler.simps handleAddFiles_def urlGroups_setUrlGroups
    by (intro list_all_map_preserved[OF _ assms]) simp
next
  case (RemoveFile fileName)
  show ?thesis unfolding RemoveFile handler.simps handleRemoveFile_def urlGroups_setUrlGroups
    by (rule list_all_map_preserved[OF _ assms]) (simp add: withinCaps_filter_files)
next
  case (SetGroupId gid)
  then show ?thesis using assms by (simp add: setActiveUrlGroupId_def)
qed

lemma dispatch_withinCaps:
  "list_all withinCaps (urlGroups s) \<Longrightarrow> list_all withinCaps (urlGroups (dispatch env ev s))"
  by (simp add: dispatch_def urlGroups_commit handler_withinCaps)

lemma run_withinCaps:
  "list_all withinCaps (urlGroups s) \<Longrightarrow> list_all withinCaps (urlGroups (run env evs s))"
  by (induction evs arbitrary: s) (simp_all add: dispatch_withinCaps)

lemma initial_withinCaps: "list_all withinCaps (urlGroups (initialApp env))"
  by (simp add: initialApp_def urlGroups_welcomeEffect INITIAL_URL_GROUPS_def withinCaps_def
      GEMINI_DOCS_URLS_def MODEL_CAPABILITIES_URLS_def MAX_URLS_def MAX_FILES_def)

lemma activeGroup_handleAddUrl:
  "activeGroup (handleAddUrl url s) =
     map_option (\<lambda>group. if length (urls_g group) < MAX_URLS \<and> url \<notin> set (urls_g group)
                         then group\<lparr>urls_g := urls_g group @ [url]\<rparr> else group) (activeGroup s)"
proof -
  have "find (\<lambda>group. id_g group = a) (map (\<lambda>group.
        if id_g group = a
        then (if length (urls_g group) < MAX_URLS \<and> url \<notin> set (urls_g group)
              then group\<lparr>urls_g := urls_g group @ [url]\<rparr>
              else group)
        else group) xs) =
     map_option (\<lambda>group. if length (urls_g group) < MAX_URLS \<and> url \<notin> set (urls_g group)
                         then group\<lparr>urls_g := urls_g group @ [url]\<rparr> else group)
       (find (\<lambda>group. id_g group = a) xs)" for a and xs :: "URLGroup list"
    by (induction xs) auto
  then show ?thesis
    by (simp add: activeGroup_def handleAddUrl_def urlGroups_setUrlGroups
        activeUrlGroupId_setUrlGroups)
qed

lemma activeGroup_handleAddFiles:
  "activeGroup (handleAddFiles newFiles s) =
     map_option (\<lambda>group. group\<lparr>files_g := take MAX_FILES (files_g group @ newFiles)\<rparr>)
       (activeGroup s)"
proof -
  have "find (\<lambda>group. id_g group = a) (map (\<lambda>group.
        if id_g group = a
        then (let combinedFiles = files_g group @ newFiles
              in if length combinedFiles > MAX_FILES
                 then group\<lparr>files_g := take MAX_FILES combinedFiles\<rparr>
                 else group\<lparr>files_g := combinedFiles\<rparr>)
        else group) xs) =
     map_option (\<lambda>group. group\<lparr>files_g := take MAX_FILES (files_g group @ newFiles)\<rparr>)
       (find (\<lambda>group. id_g group = a) xs)" for a and xs :: "URLGroup list"
    by (induction xs) (auto simp: Let_def)
  then show ?thesis
    by (simp add: activeGroup_def handleAddFiles_def urlGroups_setUrlGroups
        activeUrlGroupId_setUrlGroups)
qed

text \<open>
  Claim C1. From a state whose groups are within their caps, and so from the initial
  state, every sequence of store events (additions, removals and switches of the
  active group) leaves every group with at most 20 URLs and at most 50 files. An
  \<open>addUrl\<close> on an active group at capacity leaves the group as it is, and
  \<open>addFiles\<close> keeps the first 50 files of the old list followed by the batch.
\<close>

theorem caps_hold:
  assumes "list_all withinCaps (urlGroups s)" and "activeGroup s = Some g"
  shows "list_all withinCaps (urlGroups (run env evs s))
       \<and> list_all withinCaps (urlGroups (run env evs (initialApp env)))
       \<and> (MAX_URLS \<le> length (urls_g g) \<longrightarrow> activeGroup (handleAddUrl url s) = Some g)
       \<and> activeGroup (handleAddFiles newFiles s)
            = Some (g\<lparr>files_g := take MAX_FILES (files_g g @ newFiles)\<rparr>)"
  using assms
  by (simp add: run_withinCaps initial_withinCaps activeGroup_handleAddUrl
      activeGroup_handleAddFiles)

theorem caps_hold_witness:
  "list_all withinCaps (urlGroups fullApp)
   \<and> activeGroup fullApp = Some fullGroup
   \<and> MAX_URLS \<le> length (urls_g fullGroup)
   \<and> list_all withinCaps (urlGroups (run demoEnv [AddUrl ''https://example.org/'', AddFiles [fileA]] fullApp))
   \<and> activeGroup (handleAddUrl ''https://example.org/'' fullApp) = Some fullGroup
   \<and> activeGroup (handleAddFiles [fileA] fullApp)
        = Some (fullGroup\<lparr>files_g := take MAX_FILES (files_g fullGroup @ [fileA])\<rparr>)
   \<and> take MAX_FILES (files_g fullGroup @ [fileA]) = files_g fullGroup"
proof -
  have inv: "list_all withinCaps (urlGroups fullApp)"
    by (simp add: fullApp_def fullGroup_def withinCaps_def MAX_URLS_def MAX_FILES_def)
  have act: "activeGroup fullApp = Some fullGroup"
    by (simp add: activeGroup_def fullApp_def fullGroup_def)
  have cap: "MAX_URLS \<le> length (urls_g fullGroup)"
    by (simp add: fullGroup_def MAX_URLS_def)
  have cut: "take MAX_FILES (files_g fullGroup @ [fileA]) = files_g fullGroup"
    by (simp add: fullGroup_def MAX_FILES_def)
  show ?thesis
    using caps_hold[OF inv act, of demoEnv "[AddUrl ''https://example.org/'', AddFiles [fileA]]"
        "''https://example.org/''" "[fileA]"] inv act cap cut
    by simp
qed


lemma addUrl_twice:
  "urlGroups (handleAddUrl url (handleAddUrl url s)) = urlGroups (handleAddUrl url s)"
  by (simp add: handleAddUrl_def urlGroups_setUrlGroups activeUrlGroupId_setUrlGroups)

text \<open>
  Claim C3. Adding a URL that the active group already has leaves the group, its URLs
  and its files, as it is; and adding any URL a second time changes no group.
\<close>

theorem addUrl_present:
  assumes "activeGroup s = Some g" and "url \<in> set (urls_g g)"
  shows "activeGroup (handleAddUrl url s) = Some g
       \<and> urlGroups (handleAddUrl url (handleAddUrl url s)) = urlGroups (handleAddUrl url s)"
  using assms by (simp add: activeGroup_handleAddUrl addUrl_twice)

lemma addUrl_present_store:
  assumes "list_all (\<lambda>g. id_g g = activeUrlGroupId s \<longrightarrow> url \<in> set (urls_g g)) (urlGroups s)"
  shows "urlGroups (handleAddUrl url s) = urlGroups s"
  using assms
  by (simp add: handleAddUrl_def urlGroups_setUrlGroups list_all_iff map_idI)


theorem addUrl_present_witness:
  "activeGroup (initialApp demoEnv) = Some (INITIAL_URL_GROUPS ! 0)
   \<and> ''https://ai.google.dev/gemini-api/docs/models'' \<in> set (urls_g (INITIAL_URL_GROUPS ! 0))
   \<and> activeGroup (handleAddUrl ''https://ai.google.dev/gemini-api/docs/models'' (initialApp demoEnv))
        = Some (INITIAL_URL_GROUPS ! 0)"
proof -
  have act: "activeGroup (initialApp demoEnv) = Some (INITIAL_URL_GROUPS ! 0)"
    by (simp add: activeGroup_def initialApp_def welcomeEffect_def Let_def INITIAL_URL_GROUPS_def)
  have mem: "''https://ai.google.dev/gemini-api/docs/models'' \<in> set (urls_g (INITIAL_URL_GROUPS ! 0))"
    by (simp add: INITIAL_URL_GROUPS_def GEMINI_DOCS_URLS_def)
  show ?thesis using addUrl_present[OF act mem] act mem by simp
qed




section \<open>Properties of the gateway\<close>

lemma formatGeminiError_classify: "formatGeminiError error = categoryText (classify error) error"
proof (cases error)
  case (Error msg)
  then show ?thesis
    by (simp add: formatGeminiError_def classify_def keywordSets_def Let_def)
next
  case NonError
  then show ?thesis by (simp add: formatGeminiError_def classify_def)
qed

lemma removeBracketed_none: "CHR ''['' \<notin> set s \<Longrightarrow> removeBracketed s = s"
  by (induction s) auto

lemma stop_message_kept:
  "CHR ''['' \<notin> set reason \<Longrightarrow>
     removeErrorPrefix (removeBracketed (''Response stopped due to: '' @ reason))
       = ''Response stopped due to: '' @ reason"
  by (simp add: removeBracketed_none removeErrorPrefix_def startsWith_def)

lemma generate_thrown:
  assumes "truthy (API_KEY env)"
    and "generateContent env (contextRequest prompt urls fileParts) = Inl error"
  shows "fst (generateContentWithContext env prompt urls fileParts)
           = Inl (Error (formatGeminiError error))"
  using assms by (simp add: generateContentWithContext_def getAiInstance_def)

lemma generate_stopped_raw:
  assumes "truthy (API_KEY env)"
    and "generateContent env (contextRequest prompt urls fileParts) = Inr response"
    and "orElse (text_r response) [] = []"
    and "candidates response = Some (c # cs)"
    and "finishReason c \<noteq> Some ''STOP''"
  shows "fst (generateContentWithContext env prompt urls fileParts)
           = Inl (Error (formatGeminiError
                (Error (''Response stopped due to: '' @ interpolate (finishReason c)))))"
  using assms by (simp add: generateContentWithContext_def getAiInstance_def Let_def)

lemma includes_s_self: "includes_s r r"
  by (cases r) (simp_all add: startsWith_def)

lemma includes_s_append: "includes_s (p @ r) r"
  by (induction p) (simp_all add: includes_s_self)

text \<open>
  Claim C5. \<open>formatGeminiError\<close> is the specification's classification: the text of
  the category of the first keyword set, in the fixed order, one of whose keywords
  occurs in the lower-cased message; the fallback where none does (the message with its
  bracketed tag and its \<open>GoogleGenAIError:\<close> prefix removed) or where the thrown value is
  no \<open>Error\<close> (a fixed text). The six categories' texts are pairwise different, and
  what the service throws reaches the caller of \<open>generateContentWithContext\<close> as an
  \<open>Error\<close> with that text.
\<close>

theorem error_normalization:
  "formatGeminiError error = categoryText (classify error) error
   \<and> distinct (map (\<lambda>c. categoryText c error)
        [Authentication, Quota, Unavailable, Network, SafetyBlock, InvalidCandidate])
   \<and> (truthy (API_KEY env)
        \<and> generateContent env (contextRequest prompt urls fileParts) = Inl error
        \<longrightarrow> fst (generateContentWithContext env prompt urls fileParts)
              = Inl (Error (categoryText (classify error) error)))"
  using generate_thrown[of env prompt urls fileParts error]
  by (simp add: formatGeminiError_classify)

theorem error_normalization_witness:
  "classify (Error ''RESOURCE_EXHAUSTED: Quota exceeded, the model is overloaded'') = Quota
   \<and> formatGeminiError (Error ''RESOURCE_EXHAUSTED: Quota exceeded, the model is overloaded'')
        = ''Usage limit exceeded. Please try again later.''
   \<and> truthy (API_KEY (throwingEnv (Error ''RESOURCE_EXHAUSTED: Quota exceeded, the model is overloaded'')))
   \<and> generateContent (throwingEnv (Error ''RESOURCE_EXHAUSTED: Quota exceeded, the model is overloaded''))
        (contextRequest ''What changed?'' [] [])
        = Inl (Error ''RESOURCE_EXHAUSTED: Quota exceeded, the model is overloaded'')
   \<and> fst (generateContentWithContext
             (throwingEnv (Error ''RESOURCE_EXHAUSTED: Quota exceeded, the model is overloaded''))
             ''What changed?'' [] [])
        = Inl (Error ''Usage limit exceeded. Please try again later.'')"
proof -
  let ?e = "Error ''RESOURCE_EXHAUSTED: Quota exceeded, the model is overloaded''"
  have c: "classify ?e = Quota"
    by (simp add: classify_def keywordSets_def toLowerCase_def toLowerChar_def startsWith_def)
  have k: "truthy (API_KEY (throwingEnv ?e))"
    by (simp add: throwingEnv_def demoEnv_def truthy_def)
  have t: "generateContent (throwingEnv ?e) (contextRequest ''What changed?'' [] []) = Inl ?e"
    by (simp add: throwingEnv_def)
  show ?thesis
    using error_normalization[of ?e "throwingEnv ?e" "''What changed?''" "[]" "[]"] c k t
    by simp
qed

text \<open>
  Claim C4, as amended. When the response has no text and its first candidate's finish
  reason is not \<open>STOP\<close>, \<open>generateContentWithContext\<close> throws; the message is
  \<open>formatGeminiError\<close> of \<open>Response stopped due to: <reason>\<close>. Where that text matches
  none of the keyword sets and the reason has no \<open>[\<close>, the message is that text and
  the reason stands in it; where it matches one (the reasons \<open>SAFETY\<close> and
  \<open>IMAGE_SAFETY\<close> do) the message is the category's fixed text.
\<close>

theorem generate_stopped:
  assumes "truthy (API_KEY env)"
    and "generateContent env (contextRequest prompt urls fileParts) = Inr response"
    and "orElse (text_r response) [] = []"
    and "candidates response = Some (c # cs)"
    and "finishReason c \<noteq> Some ''STOP''"
  shows "fst (generateContentWithContext env prompt urls fileParts)
           = Inl (Error (formatGeminiError
                (Error (''Response stopped due to: '' @ interpolate (finishReason c)))))
       \<and> (classify (Error (''Response stopped due to: '' @ interpolate (finishReason c))) = Generic
            \<and> CHR ''['' \<notin> set (interpolate (finishReason c))
          \<longrightarrow> fst (generateContentWithContext env prompt urls fileParts)
                = Inl (Error (''Response stopped due to: '' @ interpolate (finishReason c)))
              \<and> includes_s (''Response stopped due to: '' @ interpolate (finishReason c))
                   (interpolate (finishReason c)))
       \<and> (classify (Error (''Response stopped due to: '' @ interpolate (finishReason c))) \<noteq> Generic
          \<longrightarrow> fst (generateContentWithContext env prompt urls fileParts)
                = Inl (Error (categoryText
                    (classify (Error (''Response stopped due to: '' @ interpolate (finishReason c))))
                    NonError)))"
proof -
  let ?stop = "Error (''Response stopped due to: '' @ interpolate (finishReason c))"
  have raw: "fst (generateContentWithContext env prompt urls fileParts)
               = Inl (Error (formatGeminiError ?stop))"
    by (rule generate_stopped_raw[OF assms])
  have generic: "formatGeminiError ?stop = ''Response stopped due to: '' @ interpolate (finishReason c)"
    if "classify ?stop = Generic" and "CHR ''['' \<notin> set (interpolate (finishReason c))"
  proof -
    have "formatGeminiError ?stop = categoryText Generic ?stop"
      using that(1) by (simp only: formatGeminiError_classify)
    also have "\<dots> = removeErrorPrefix (removeBracketed
                        (''Response stopped due to: '' @ interpolate (finishReason c)))"
      by (simp only: categoryText.simps)
    also have "\<dots> = ''Response stopped due to: '' @ interpolate (finishReason c)"
      by (rule stop_message_kept[OF that(2)])
    finally show ?thesis .
  qed
  have fixed: "formatGeminiError ?stop = categoryText (classify ?stop) NonError"
    if "classify ?stop \<noteq> Generic"
  proof -
    have "categoryText k ?stop = categoryText k NonError" if "k \<noteq> Generic" for k
      using that by (cases k) simp_all
    with that show ?thesis by (simp only: formatGeminiError_classify)
  qed
  have embedded: "includes_s (''Response stopped due to: '' @ interpolate (finishReason c))
                    (interpolate (finishReason c))"
    by (rule includes_s_append)
  show ?thesis
    unfolding raw using generic fixed embedded by blast
qed

theorem generate_stopped_witness:
  "truthy (API_KEY (stoppingEnv ''MAX_TOKENS''))
   \<and> generateContent (stoppingEnv ''MAX_TOKENS'') (contextRequest ''Summarise'' [] [])
        = Inr (stoppedResponse ''MAX_TOKENS'')
   \<and> orElse (text_r (stoppedResponse ''MAX_TOKENS'')) [] = []
   \<and> candidates (stoppedResponse ''MAX_TOKENS'')
        = Some [\<lparr>finishReason = Some ''MAX_TOKENS'', urlContextMetadata_c = None\<rparr>]
   \<and> classify (Error ''Response stopped due to: MAX_TOKENS'') = Generic
   \<and> fst (generateContentWithContext (stoppingEnv ''MAX_TOKENS'') ''Summarise'' [] [])
        = Inl (Error ''Response stopped due to: MAX_TOKENS'')
   \<and> includes_s ''Response stopped due to: MAX_TOKENS'' ''MAX_TOKENS''"
proof -
  let ?c = "\<lparr>finishReason = Some ''MAX_TOKENS'', urlContextMetadata_c = None\<rparr>"
  have k: "truthy (API_KEY (stoppingEnv ''MAX_TOKENS''))"
    by (simp add: stoppingEnv_def demoEnv_def truthy_def)
  have r: "generateContent (stoppingEnv ''MAX_TOKENS'') (contextRequest ''Summarise'' [] [])
             = Inr (stoppedResponse ''MAX_TOKENS'')"
    by (simp add: stoppingEnv_def)
  have e: "orElse (text_r (stoppedResponse ''MAX_TOKENS'')) [] = []"
    by (simp add: stoppedResponse_def orElse_def)
  have cs: "candidates (stoppedResponse ''MAX_TOKENS'') = Some (?c # [])"
    by (simp add: stoppedResponse_def)
  have f: "finishReason ?c \<noteq> Some ''STOP''"
    by simp
  have g: "classify (Error ''Response stopped due to: MAX_TOKENS'') = Generic"
    by (simp add: classify_def keywordSets_def toLowerCase_def toLowerChar_def startsWith_def)
  have "fst (generateContentWithContext (stoppingEnv ''MAX_TOKENS'') ''Summarise'' [] [])
          = Inl (Error ''Response stopped due to: MAX_TOKENS'')
        \<and> includes_s ''Response stopped due to: MAX_TOKENS'' ''MAX_TOKENS''"
    using generate_stopped[OF k r e cs f, THEN conjunct2, THEN conjunct1] g
    by (simp add: interpolate_def)
  then show ?thesis
    using k r e cs g by simp
qed

theorem generate_stopped_counterexample:
  "text_r (stoppedResponse ''IMAGE_SAFETY'') = None
   \<and> map finishReason (the (candidates (stoppedResponse ''IMAGE_SAFETY''))) = [Some ''IMAGE_SAFETY'']
   \<and> fst (generateContentWithContext (stoppingEnv ''IMAGE_SAFETY'') ''Describe the picture'' [] [])
        = Inl (Error ''The content was blocked due to safety policies. Please try a different prompt.'')
   \<and> \<not> includes_s
          (toLowerCase ''The content was blocked due to safety policies. Please try a different prompt.'')
          (toLowerCase ''IMAGE_SAFETY'')
   \<and> fst (generateContentWithContext (stoppingEnv ''SAFETY'') ''Describe the picture'' [] [])
        = Inl (Error ''The content was blocked due to safety policies. Please try a different prompt.'')
   \<and> \<not> includes_s
          ''The content was blocked due to safety policies. Please try a different prompt.''
          ''SAFETY''"
  by (simp add: generateContentWithContext_def getAiInstance_def truthy_def stoppingEnv_def
      demoEnv_def stoppedResponse_def orElse_def Let_def interpolate_def formatGeminiError_def
      toLowerCase_def toLowerChar_def startsWith_def)

text \<open>
  Claim C6. A call of \<open>generateContentWithContext\<close> with a credential sends one
  request (none without a credential). The request carries the URL context tool if and
  only if there is a URL, and no tool otherwise; its one content has the file parts
  first, in their order, and the prompt text last; the prompt text is the prompt
  itself when there is no URL, and the prompt followed by the list of the URLs when
  there is one.
\<close>

theorem request_shape:
  "snd (generateContentWithContext env prompt urls fileParts)
     = (if truthy (API_KEY env) then [contextRequest prompt urls fileParts] else [])
   \<and> (tools (contextRequest prompt urls fileParts) = Some [UrlContext]) = (urls \<noteq> [])
   \<and> (tools (contextRequest prompt urls fileParts) = None) = (urls = [])
   \<and> contents (contextRequest prompt urls fileParts)
        = [\<lparr>role = ''user'',
            parts = fileParts @
              [Text (if urls = [] then prompt
                     else prompt @ ''\<newline>\<newline>Relevant URLs for context:\<newline>''
                          @ join ''\<newline>'' urls)]\<rparr>]"
  by (simp add: generateContentWithContext_def getAiInstance_def contextRequest_def Let_def
      split: sum.splits)

theorem request_shape_witness:
  "snd (generateContentWithContext demoEnv ''Which models are there?''
          [''https://a.example/docs'', ''https://b.example/api''] [Text ''notes''])
     = [\<lparr>model = ''gemini-2.5-flash'',
         contents = [\<lparr>role = ''user'',
                      parts = [Text ''notes'',
                               Text ''Which models are there?\<newline>\<newline>Relevant URLs for context:\<newline>https://a.example/docs\<newline>https://b.example/api'']\<rparr>],
         tools = Some [UrlContext],
         safetySettings_p = safetySettings,
         responseMimeType = None\<rparr>]
   \<and> tools (contextRequest ''Which models are there?'' [] [Text ''notes'']) = None"
  using request_shape[of demoEnv "''Which models are there?''"
      "[''https://a.example/docs'', ''https://b.example/api'']" "[Text ''notes'']"]
    request_shape[of demoEnv "''Which models are there?''" "[]" "[Text ''notes'']"]
  by (simp add: demoEnv_def truthy_def contextRequest_def MODEL_NAME_def)


section \<open>Properties of the file encoder\<close>

lemma startsWith_nonempty: "startsWith s p \<Longrightarrow> p \<noteq> [] \<Longrightarrow> s \<noteq> []"
  by (auto simp: startsWith_def)

text \<open>In the inline branch the MIME type is not empty: the fallback of
  \<open>file.type || 'application/octet-stream'\<close> is never taken there.\<close>

lemma media_type_nonempty:
  assumes "startsWith t ''image/'' \<or> t = ''application/pdf'' \<or> startsWith t ''audio/''
           \<or> startsWith t ''video/''"
  shows "orElse (Some t) ''application/octet-stream'' = t"
proof -
  have "t \<noteq> []" using assms by (auto dest: startsWith_nonempty)
  then show ?thesis by (simp add: orElse_def)
qed

lemma split_s_nonempty: "split_s sep s \<noteq> []"
  by (induction s) (auto split: list.splits)

lemma split_s_no_sep: "sep \<notin> set s \<Longrightarrow> split_s sep s = [s]"
  by (induction s) auto

lemma split_s_first: "sep \<notin> set h \<Longrightarrow> split_s sep (h @ sep # t) = h # split_s sep t"
  by (induction h) auto

lemma dataURL_payload:
  assumes "CHR '','' \<notin> set header" and "CHR '','' \<notin> set payload"
  shows "index (split_s CHR '','' (header @ CHR '','' # payload)) 1 = Some payload"
  using assms by (simp add: split_s_first split_s_no_sep index_def)

text \<open>
  Claim C7. Where the readers succeed, \<open>fileToPart\<close> gives inline data exactly for a
  file whose MIME type starts with \<open>image/\<close>, \<open>audio/\<close> or \<open>video/\<close> or is
  \<open>application/pdf\<close>: the MIME type (the octet-stream value stands in for an empty
  one) and the text after the first comma of the file's data URL, its base64 body.
  For every other file it gives the text of a header with the file's name, the file's
  content and a delimiter line.
\<close>

theorem fileToPart_classification:
  assumes "readAsDataURL env file = Some dataUrl" and "readAsText env file = Some content"
  shows "fileToPart env file =
           (if startsWith (type_f file) ''image/'' \<or> startsWith (type_f file) ''audio/''
               \<or> startsWith (type_f file) ''video/'' \<or> type_f file = ''application/pdf''
            then Inr (InlineData
                       (if type_f file = [] then ''application/octet-stream'' else type_f file)
                       (index (split_s CHR '','' dataUrl) 1))
            else Inr (Text (''File: '' @ name_f file @ ''\<newline>Content:\<newline>'' @ content
                            @ ''\<newline>---\<newline>'')))
       \<and> (CHR '','' \<notin> set header \<and> CHR '','' \<notin> set payload
            \<and> dataUrl = header @ CHR '','' # payload
          \<longrightarrow> index (split_s CHR '','' dataUrl) 1 = Some payload)"
proof -
  have enc: "fileToPart env file =
           (if startsWith (type_f file) ''image/'' \<or> startsWith (type_f file) ''audio/''
               \<or> startsWith (type_f file) ''video/'' \<or> type_f file = ''application/pdf''
            then Inr (InlineData
                       (if type_f file = [] then ''application/octet-stream'' else type_f file)
                       (index (split_s CHR '','' dataUrl) 1))
            else Inr (Text (''File: '' @ name_f file @ ''\<newline>Content:\<newline>'' @ content
                            @ ''\<newline>---\<newline>'')))"
    using assms
    by (auto simp: fileToPart_def readFileAsBase64_def readFileAsText_def orElse_def Let_def)
  have body: "index (split_s CHR '','' dataUrl) 1 = Some payload"
    if "CHR '','' \<notin> set header" and "CHR '','' \<notin> set payload"
      and "dataUrl = header @ CHR '','' # payload"
    using that dataURL_payload by blast
  show ?thesis using enc body by blast
qed

theorem fileToPart_classification_witness:
  "readAsDataURL readingEnv fileB = Some ''data:image/png;base64,QUJD''
   \<and> readAsText readingEnv fileA = Some ''hello''
   \<and> fileToPart readingEnv fileB = Inr (InlineData ''image/png'' (Some ''QUJD''))
   \<and> fileToPart readingEnv fileA
        = Inr (Text ''File: a.txt\<newline>Content:\<newline>hello\<newline>---\<newline>'')"
proof -
  have d: "readAsDataURL readingEnv f = Some ''data:image/png;base64,QUJD''" for f
    by (simp add: readingEnv_def)
  have t: "readAsText readingEnv f = Some ''hello''" for f
    by (simp add: readingEnv_def)
  show ?thesis
    using fileToPart_classification[OF d t, of fileB "''data:image/png;base64''" "''QUJD''"]
      fileToPart_classification[OF d t, of fileA "''data:image/png;base64''" "''QUJD''"] d t
    by (simp add: fileA_def fileB_def startsWith_def)
qed

section \<open>Properties of the suggestion parser\<close>

lemma dropWhile_keeps: "xs \<noteq> [] \<Longrightarrow> \<not> P (hd xs) \<Longrightarrow> dropWhile P xs = xs"
  by (cases xs) simp_all

lemma dropWhile_all_prefix: "list_all P xs \<Longrightarrow> dropWhile P (xs @ ys) = dropWhile P ys"
  by (induction xs) simp_all

lemma takeWhile_all_prefix:
  "list_all P xs \<Longrightarrow> \<not> P y \<Longrightarrow> takeWhile P (xs @ y # ys) = xs"
  by (induction xs) simp_all

lemma trim_padded:
  assumes "list_all isWhiteSpace pre" and "list_all isWhiteSpace post"
    and "x \<noteq> []" and "\<not> isWhiteSpace (hd x)" and "\<not> isWhiteSpace (last x)"
  shows "trim (pre @ x @ post) = x"
proof -
  have front: "dropWhile isWhiteSpace (pre @ x @ post) = x @ post"
    using assms(1,3,4) by (simp add: dropWhile_all_prefix dropWhile_keeps dropWhile_append1
        hd_append)
  have "list_all isWhiteSpace (rev post)"
    using assms(2) by (simp add: list_all_iff)
  then have "dropWhile isWhiteSpace (rev post @ rev x) = dropWhile isWhiteSpace (rev x)"
    by (rule dropWhile_all_prefix)
  also have "\<dots> = rev x"
    using assms(3,5) by (simp add: dropWhile_keeps hd_rev)
  finally show ?thesis
    by (simp add: trim_def front)
qed

lemma trim_clean: "x \<noteq> [] \<Longrightarrow> \<not> isWhiteSpace (hd x) \<Longrightarrow> \<not> isWhiteSpace (last x) \<Longrightarrow> trim x = x"
  using trim_padded[of "[]" "[]" x] by simp

lemma fenceMatch_fenced:
  assumes "list_all isWordChar lang" and "body \<noteq> []"
    and "\<not> isWhiteSpace (hd body)" and "\<not> isWhiteSpace (last body)"
  shows "fenceMatch (''```'' @ lang @ ''\<newline>'' @ body @ ''\<newline>```'') = Some (lang, body)"
proof -
  let ?s = "''```'' @ lang @ ''\<newline>'' @ body @ ''\<newline>```''"
  have inner: "take (length ?s - 6) (drop 3 ?s) = lang @ CHR ''\<newline>'' # body @ ''\<newline>''"
    by simp
  have nl: "\<not> isWordChar CHR ''\<newline>''" "isWhiteSpace CHR ''\<newline>''"
    by (simp_all add: isWordChar_def isWhiteSpace_def)
  have lang: "takeWhile isWordChar (lang @ CHR ''\<newline>'' # body @ ''\<newline>'') = lang"
    using assms(1) nl(1) by (rule takeWhile_all_prefix)
  have "dropWhile isWordChar (lang @ CHR ''\<newline>'' # body @ ''\<newline>'')
          = CHR ''\<newline>'' # body @ ''\<newline>''"
    using assms(1) nl(1) by (simp add: dropWhile_all_prefix)
  then have rest: "dropWhile isWhiteSpace (dropWhile isWordChar (lang @ CHR ''\<newline>'' # body @ ''\<newline>''))
          = body @ ''\<newline>''"
    using assms(2,3) nl(2) by (simp add: dropWhile_append1 dropWhile_keeps)
  have tail: "rev (dropWhile isWhiteSpace (rev (body @ ''\<newline>''))) = body"
    using assms(2,4) nl(2) by (simp add: dropWhile_keeps hd_rev)
  have open_close: "6 \<le> length ?s" "startsWith ?s ''```''" "startsWith (rev ?s) ''```''"
    by (simp_all add: startsWith_def)
  show ?thesis
    unfolding fenceMatch_def using open_close
    by (simp only: inner lang rest tail Let_def if_True simp_thms)
qed

lemma jsonStr_fenced:
  assumes "list_all isWhiteSpace pre" and "list_all isWhiteSpace post"
    and "list_all isWordChar lang" and "body \<noteq> []"
    and "\<not> isWhiteSpace (hd body)" and "\<not> isWhiteSpace (last body)"
  shows "jsonStr (pre @ (''```'' @ lang @ ''\<newline>'' @ body @ ''\<newline>```'') @ post) = body"
proof -
  let ?s = "''```'' @ lang @ ''\<newline>'' @ body @ ''\<newline>```''"
  have bq: "\<not> isWhiteSpace CHR ''`''"
    by (simp add: isWhiteSpace_def)
  have "trim (pre @ ?s @ post) = ?s"
    using assms(1,2) bq by (intro trim_padded) simp_all
  then show ?thesis
    using fenceMatch_fenced[OF assms(3-6)] assms(4-6)
    by (simp only: jsonStr_def Let_def option.case prod.case if_True trim_clean simp_thms)
qed

lemma suggestionsOf_truthy:
  "(if truthy_j parsed
    then (case property parsed ''suggestions'' of Some (JArray xs) \<Rightarrow> strings xs | _ \<Rightarrow> [])
    else []) = suggestionsOf parsed"
  by (cases parsed) (simp_all add: suggestionsOf_def)

lemma parseSuggestions_eq:
  "parseSuggestions env text =
     (case text of
        None \<Rightarrow> []
      | Some t \<Rightarrow>
          if t = [] then []
          else (case JSON_parse env (jsonStr t) of
                  None \<Rightarrow> []
                | Some parsed \<Rightarrow> take 4 (suggestionsOf parsed)))"
  by (simp add: parseSuggestions_def suggestionsOf_truthy split: option.splits)

text \<open>
  Claim C8. The suggestion parser hands to \<open>JSON.parse\<close> the trimmed text, or the
  body of a code fence around it; it returns at most 4 entries, the first strings of
  the parsed value's \<open>suggestions\<close> array, an empty list when the value has no such
  array, and an empty list, throwing nothing, when \<open>JSON.parse\<close> fails.
\<close>

theorem suggestions_parsed:
  "parseSuggestions env text =
     (case text of
        None \<Rightarrow> []
      | Some t \<Rightarrow>
          if t = [] then []
          else (case JSON_parse env (jsonStr t) of
                  None \<Rightarrow> []
                | Some parsed \<Rightarrow> take 4 (suggestionsOf parsed)))
   \<and> length (parseSuggestions env text) \<le> 4
   \<and> (list_all isWhiteSpace pre \<and> list_all isWhiteSpace post \<and> list_all isWordChar lang
        \<and> body \<noteq> [] \<and> \<not> isWhiteSpace (hd body) \<and> \<not> isWhiteSpace (last body)
      \<longrightarrow> jsonStr (pre @ (''```'' @ lang @ ''\<newline>'' @ body @ ''\<newline>```'') @ post) = body)
   \<and> (fenceMatch (trim t) = None \<longrightarrow> jsonStr t = trim t)
   \<and> (JSON_parse env (jsonStr t) = None \<longrightarrow> parseSuggestions env (Some t) = [])"
proof -
  have len: "length (parseSuggestions env text) \<le> 4"
    by (simp add: parseSuggestions_def)
  have plain: "jsonStr t = trim t" if "fenceMatch (trim t) = None"
    using that by (simp add: jsonStr_def)
  have failed: "parseSuggestions env (Some t) = []" if "JSON_parse env (jsonStr t) = None"
    using that by (simp add: parseSuggestions_eq)
  show ?thesis
    using parseSuggestions_eq[of env "text"] len plain failed
      jsonStr_fenced[of pre post lang body]
    by blast
qed

theorem suggestions_parsed_witness:
  "jsonStr (''```json\<newline>'' @ twoSuggestions @ ''\<newline>```'') = twoSuggestions
   \<and> parseSuggestions parsingEnv (Some (''```json\<newline>'' @ twoSuggestions @ ''\<newline>```''))
        = [''a'', ''b'']
   \<and> fenceMatch (trim sixSuggestions) = None
   \<and> parseSuggestions parsingEnv (Some sixSuggestions) = [''1'', ''2'', ''4'', ''5'']
   \<and> JSON_parse parsingEnv (jsonStr ''{suggestions: oops'') = None
   \<and> parseSuggestions parsingEnv (Some ''{suggestions: oops'') = []"
proof -
  have two: "twoSuggestions \<noteq> [] \<and> \<not> isWhiteSpace (hd twoSuggestions)
             \<and> \<not> isWhiteSpace (last twoSuggestions)"
    by (simp add: twoSuggestions_def isWhiteSpace_def)
  have word: "list_all isWordChar ''json''"
    by (simp add: isWordChar_def)
  have fenced: "jsonStr (''```json\<newline>'' @ twoSuggestions @ ''\<newline>```'') = twoSuggestions"
    using suggestions_parsed[of parsingEnv None "[]" "[]" "''json''" twoSuggestions "[]"] two word
    by simp
  have nofence: "fenceMatch (trim sixSuggestions) = None"
    by (simp add: fenceMatch_def trim_def sixSuggestions_def isWhiteSpace_def startsWith_def)
  have six: "jsonStr sixSuggestions = trim sixSuggestions"
    using suggestions_parsed[of parsingEnv None "[]" "[]" "[]" "[]" sixSuggestions] nofence
    by simp
  have six': "trim sixSuggestions = sixSuggestions"
    by (simp add: trim_def sixSuggestions_def isWhiteSpace_def)
  have bad: "JSON_parse parsingEnv (jsonStr ''{suggestions: oops'') = None"
    by (simp add: parsingEnv_def demoParse_def jsonStr_def trim_def fenceMatch_def
        isWhiteSpace_def startsWith_def twoSuggestions_def sixSuggestions_def)
  have p2: "parseSuggestions parsingEnv (Some (''```json\<newline>'' @ twoSuggestions @ ''\<newline>```''))
        = [''a'', ''b'']"
    using suggestions_parsed[of parsingEnv
        "Some (''```json\<newline>'' @ twoSuggestions @ ''\<newline>```'')" "[]" "[]" "[]" "[]" "[]"] fenced
    by (simp add: parsingEnv_def demoParse_def suggestionsOf_def twoSuggestions_def)
  have p6: "parseSuggestions parsingEnv (Some sixSuggestions) = [''1'', ''2'', ''4'', ''5'']"
    using suggestions_parsed[of parsingEnv "Some sixSuggestions" "[]" "[]" "[]" "[]" "[]"] six six'
    by (simp add: parsingEnv_def demoParse_def suggestionsOf_def twoSuggestions_def
        sixSuggestions_def)
  have pbad: "parseSuggestions parsingEnv (Some ''{suggestions: oops'') = []"
    using suggestions_parsed[of parsingEnv None "[]" "[]" "[]" "[]" "''{suggestions: oops''"] bad
    by simp
  show ?thesis
    using fenced p2 nofence p6 bad pbad by simp
qed

section \<open>Properties of the conversation controller\<close>

text \<open>
  Claim C9. A query that is not blank, submitted while nothing is in flight and the
  runtime is offline, appends one message to the transcript, a \<open>SYSTEM\<close> message
  whose text is the offline notice; nothing else of the state changes, and no call of
  the gateway or of the service is made.
\<close>

theorem offline_submit:
  assumes "trim query \<noteq> []" and "\<not> isLoading s" and "\<not> isFetchingSuggestions s"
    and "\<not> onLine env"
  shows "handleSendMessage env query s =
           (s\<lparr>chatMessages := chatMessages s @
               [\<lparr>id_m = ''sys-offline-'' @ showNat (clock env 0),
                 text_m = ''Error: You appear to be offline. Please check your internet connection.'',
                 sender = SYSTEM,
                 timestamp = clock env 1,
                 isLoading_m = None, isSummarizing = None, urlContext = None,
                 summary = None\<rparr>]\<rparr>, [])
       \<and> includes_s ''Error: You appear to be offline. Please check your internet connection.''
            ''offline''
       \<and> length (chatMessages (fst (handleSendMessage env query s)))
            = Suc (length (chatMessages s))
       \<and> map sender (drop (length (chatMessages s))
            (chatMessages (fst (handleSendMessage env query s)))) = [SYSTEM]"
proof -
  let ?m = "\<lparr>id_m = ''sys-offline-'' @ showNat (clock env 0),
             text_m = ''Error: You appear to be offline. Please check your internet connection.'',
             sender = SYSTEM,
             timestamp = clock env 1,
             isLoading_m = None, isSummarizing = None, urlContext = None,
             summary = None\<rparr>"
  have notice: "includes_s ''Error: You appear to be offline. Please check your internet connection.''
            ''offline''"
    by (simp add: startsWith_def)
  have appended: "handleSendMessage env query s = (s\<lparr>chatMessages := chatMessages s @ [?m]\<rparr>, [])"
    using assms by (simp add: handleSendMessage_def)
  have one: "length (chatMessages (fst (handleSendMessage env query s)))
               = Suc (length (chatMessages s))"
    by (simp add: appended)
  have system: "map sender (drop (length (chatMessages s))
                  (chatMessages (fst (handleSendMessage env query s)))) = [SYSTEM]"
    by (simp add: appended)
  show ?thesis
    by (intro conjI appended notice one system)
qed

theorem offline_submit_witness:
  "trim ''hello'' \<noteq> []
   \<and> \<not> isLoading (initialApp offlineEnv)
   \<and> \<not> isFetchingSuggestions (initialApp offlineEnv)
   \<and> \<not> onLine offlineEnv
   \<and> snd (handleSendMessage offlineEnv ''hello'' (initialApp offlineEnv)) = []
   \<and> map sender (chatMessages (fst (handleSendMessage offlineEnv ''hello'' (initialApp offlineEnv))))
        = [SYSTEM, SYSTEM]
   \<and> map text_m (drop 1
          (chatMessages (fst (handleSendMessage offlineEnv ''hello'' (initialApp offlineEnv)))))
        = [''Error: You appear to be offline. Please check your internet connection.'']"
proof -
  have q: "trim ''hello'' \<noteq> []"
    by (simp add: trim_def isWhiteSpace_def)
  have l: "\<not> isLoading (initialApp offlineEnv)"
    by (simp add: initialApp_def welcomeEffect_def Let_def)
  have f: "\<not> isFetchingSuggestions (initialApp offlineEnv)"
    by (simp add: initialApp_def welcomeEffect_def Let_def)
  have off: "\<not> onLine offlineEnv"
    by (simp add: offlineEnv_def)
  have one: "length (chatMessages (initialApp offlineEnv)) = 1
             \<and> map sender (chatMessages (initialApp offlineEnv)) = [SYSTEM]"
    by (simp add: initialApp_def welcomeEffect_def Let_def)
  show ?thesis
    using offline_submit[OF q l f off] q l f off one
    by simp
qed



section \<open>Properties of rendering\<close>






end
